theory Spec2Isabelle
  imports Main "HOL-Library.FSet"
begin

section \<open>Shared vocabulary\<close>

text \<open>
  Node identities of \<^verbatim>\<open>pipeline_graph\<close>: a \<^verbatim>\<open>NodeKey\<close> is the pair
  (node type, name); a \<^verbatim>\<open>MergedNodeKey\<close> is a frozenset of keys (of either kind, since
  a merge pass may run on a graph that already holds merged nodes).
\<close>

datatype NodeType = TASK | TASK_INIT | DATASET_TYPE

datatype node = NodeKey NodeType string | MergedNodeKey "node fset"

text \<open>Exceptions of Python, networkx and the repository that the embedded code can raise.\<close>

datatype py_error =
    KeyError
  | TypeError
  | UnboundLocalError
  | AssertionError
  | StopIteration
  | NetworkXUnfeasible
  | PipelineOrderError
  | DuplicateOutputError string string string
  | IncompatibleDatasetTypeError string string

section \<open>Status annotation (\<^verbatim>\<open>visualization/_status.py\<close>)\<close>

record TaskStatusInfo =
  expected :: int
  succeded :: int
  failed :: int
  blocked :: int
  ready :: "int option"
  running :: "int option"
  wonky :: "int option"

record DatasetTypeStatusInfo =
  ds_expected :: int
  ds_produced :: int

text \<open>The fields of the provenance summary that the annotator reads.\<close>

record TaskSummary =
  n_expected :: int
  n_successful :: int
  n_failed :: int
  n_blocked :: int
  n_wonky :: int

record DatasetTypeSummary =
  dt_n_expected :: int
  n_visible :: int
  n_shadowed :: int

text \<open>
  The summary's two dictionaries, in iteration order. A node's attribute dictionary maps
  attribute names to values; only the status values are given structure here.
\<close>

record Summary =
  tasks :: "(string \<times> TaskSummary) list"
  datasets :: "(string \<times> DatasetTypeSummary) list"

datatype attr_value =
    TaskStatus TaskStatusInfo
  | DatasetTypeStatus DatasetTypeStatusInfo
  | OtherAttr string

type_synonym node_state = "string \<rightharpoonup> attr_value"
type_synonym status_graph = "node \<rightharpoonup> node_state"

definition task_status_info :: "TaskSummary \<Rightarrow> TaskStatusInfo" where
  "task_status_info s =
     \<lparr>expected = n_expected s, succeded = n_successful s, failed = n_failed s,
      blocked = n_blocked s, ready = None, running = None, wonky = Some (n_wonky s)\<rparr>"

definition dataset_type_status_info :: "DatasetTypeSummary \<Rightarrow> DatasetTypeStatusInfo" where
  "dataset_type_status_info s =
     \<lparr>ds_expected = dt_n_expected s, ds_produced = n_visible s + n_shadowed s\<rparr>"

text \<open>\<^verbatim>\<open>xgraph.nodes[key]["status"] = value\<close>: KeyError when the node is absent.\<close>

definition set_status :: "status_graph \<Rightarrow> node \<Rightarrow> attr_value \<Rightarrow> py_error + status_graph" where
  "set_status g key v =
     (case g key of
        None \<Rightarrow> Inl KeyError
      | Some st \<Rightarrow> Inr (g(key \<mapsto> st(''status'' \<mapsto> v))))"

text \<open>The loop over \<^verbatim>\<open>qpg_summary.tasks.items()\<close>.\<close>

fun annotate_tasks :: "(string \<times> TaskSummary) list \<Rightarrow> status_graph \<Rightarrow> py_error + status_graph" where
  "annotate_tasks [] g = Inr g"
| "annotate_tasks ((task_label, task_summary) # rest) g =
     (case set_status g (NodeKey TASK task_label) (TaskStatus (task_status_info task_summary)) of
        Inl e \<Rightarrow> Inl e
      | Inr g' \<Rightarrow> annotate_tasks rest g')"

text \<open>
  The loop over \<^verbatim>\<open>qpg_summary.datasets.items()\<close>. Its body only rebinds the two loop
  variables and \<^verbatim>\<open>dataset_type_status_info\<close>; the result is what they are bound to when
  the loop ends (\<open>None\<close>: never bound).
\<close>

fun datasets_loop ::
  "(string \<times> DatasetTypeSummary) list \<Rightarrow> (string \<times> DatasetTypeStatusInfo) option
     \<Rightarrow> (string \<times> DatasetTypeStatusInfo) option" where
  "datasets_loop [] bound = bound"
| "datasets_loop ((dataset_type_name, dataset_type_summary) # rest) bound =
     datasets_loop rest (Some (dataset_type_name, dataset_type_status_info dataset_type_summary))"

text \<open>
  \<^verbatim>\<open>QuantumProvenanceGraphStatusAnnotator.__call__\<close>. The two statements that write the
  dataset type's status stand after the loop, at the indentation of the \<^verbatim>\<open>for\<close>.
\<close>

definition QuantumProvenanceGraphStatusAnnotator_call ::
  "Summary \<Rightarrow> status_graph \<Rightarrow> bool \<Rightarrow> py_error + status_graph" where
  "QuantumProvenanceGraphStatusAnnotator_call qpg_summary xgraph dataset_types =
     (case annotate_tasks (tasks qpg_summary) xgraph of
        Inl e \<Rightarrow> Inl e
      | Inr g \<Rightarrow>
          if dataset_types then
            (case datasets_loop (datasets qpg_summary) None of
               None \<Rightarrow> Inl UnboundLocalError
             | Some (dataset_type_name, info) \<Rightarrow>
                 set_status g (NodeKey DATASET_TYPE dataset_type_name) (DatasetTypeStatus info))
          else Inr g)"

definition status_of :: "status_graph \<Rightarrow> node \<Rightarrow> attr_value option" where
  "status_of g key = (case g key of None \<Rightarrow> None | Some st \<Rightarrow> st ''status'')"

text \<open>A summary of one task and two dataset types, and a graph holding their nodes.\<close>

definition example_summary :: Summary where
  "example_summary =
     \<lparr>tasks = [(''isr'', \<lparr>n_expected = 4, n_successful = 3, n_failed = 1, n_blocked = 0, n_wonky = 0\<rparr>)],
      datasets = [(''raw'', \<lparr>dt_n_expected = 4, n_visible = 4, n_shadowed = 0\<rparr>),
                  (''postISRCCD'', \<lparr>dt_n_expected = 4, n_visible = 2, n_shadowed = 1\<rparr>)]\<rparr>"

definition example_status_graph :: status_graph where
  "example_status_graph =
     [NodeKey TASK ''isr'' \<mapsto> Map.empty,
      NodeKey DATASET_TYPE ''raw'' \<mapsto> Map.empty,
      NodeKey DATASET_TYPE ''postISRCCD'' \<mapsto> Map.empty]"

section \<open>Quantum graph traversal (\<^verbatim>\<open>graph.py\<close>)\<close>

text \<open>
  What the traversal reads of the butler's classes: a dataset reference has an \<^verbatim>\<open>id\<close>
  (\<open>None\<close> when the dataset is not stored yet), the name of its dataset type and its data
  id; a quantum has two dictionaries from dataset type to lists of references.
\<close>

type_synonym DataId = "(string \<times> int) list"

record DatasetRef =
  ref_id :: "nat option"
  datasetType_name :: string
  dataId :: DataId

record Quantum =
  predictedInputs :: "(string \<times> DatasetRef list) list"
  outputs :: "(string \<times> DatasetRef list) list"

text \<open>A task definition is an object; \<open>object_id\<close> is what Python's \<^verbatim>\<open>id()\<close> returns.\<close>

record TaskDef =
  object_id :: nat
  label :: string

record QuantumGraphTaskNodes =
  taskDef :: TaskDef
  quanta :: "Quantum list"

type_synonym QuantumGraph = "QuantumGraphTaskNodes list"

record QuantumIterData =
  quantumId :: nat
  quantum :: Quantum
  qid_taskDef :: TaskDef
  dependencies :: "nat set"

text \<open>
  The constructor that \<^verbatim>\<open>@dataclass\<close> generates takes the declared fields, here by
  keyword. A keyword that is not a field, or a field without argument, is a TypeError.
  (Python does not check the arguments' types; the last case cannot arise from the one
  call site below.)
\<close>

datatype field_value =
    IntVal nat
  | QuantumVal Quantum
  | TaskDefVal TaskDef
  | FrozenSetVal "nat set"

definition QuantumIterData_slots :: "string list" where
  "QuantumIterData_slots = [''quantumId'', ''quantum'', ''taskDef'', ''dependencies'']"

definition QuantumIterData_init :: "(string \<times> field_value) list \<Rightarrow> py_error + QuantumIterData" where
  "QuantumIterData_init kwargs =
     (if \<exists>k \<in> set (map fst kwargs). k \<notin> set QuantumIterData_slots then Inl TypeError
      else case (map_of kwargs ''quantumId'', map_of kwargs ''quantum'',
                 map_of kwargs ''taskDef'', map_of kwargs ''dependencies'') of
             (Some (IntVal i), Some (QuantumVal q), Some (TaskDefVal t), Some (FrozenSetVal d)) \<Rightarrow>
               Inr \<lparr>quantumId = i, quantum = q, qid_taskDef = t, dependencies = d\<rparr>
           | _ \<Rightarrow> Inl TypeError)"

text \<open>
  \<^verbatim>\<open>orderedTaskNodes\<close> builds \<^verbatim>\<open>nodesMap\<close> (a later entry of the graph replaces an
  earlier one with the same task definition) and calls \<^verbatim>\<open>orderPipeline\<close>, which lives in
  \<^verbatim>\<open>pipeTools\<close>, outside the files at hand, and is a parameter: it returns the task
  definitions in some order, or raises. The generator then looks one task up at a time.
\<close>

definition nodesMap :: "QuantumGraph \<Rightarrow> nat \<rightharpoonup> QuantumGraphTaskNodes" where
  "nodesMap graph = map_of (rev (map (\<lambda>item. (object_id (taskDef item), item)) graph))"

type_synonym outputs_map = "(string \<times> DataId) \<rightharpoonup> nat"

text \<open>
  The loop over the predicted inputs of one quantum. \<open>single\<close> is the test
  \<^verbatim>\<open>len(self) == 1 and len(self[0].quanta) == 1\<close>; without it the KeyError is re-raised.
\<close>

fun find_dependencies ::
  "bool \<Rightarrow> outputs_map \<Rightarrow> DatasetRef list \<Rightarrow> nat list \<Rightarrow> py_error + nat list" where
  "find_dependencies single outs [] prereq = Inr prereq"
| "find_dependencies single outs (dataRef # rest) prereq =
     (case ref_id dataRef of
        Some _ \<Rightarrow> find_dependencies single outs rest prereq
      | None \<Rightarrow>
          (case outs (datasetType_name dataRef, dataId dataRef) of
             Some producer \<Rightarrow> find_dependencies single outs rest (prereq @ [producer])
           | None \<Rightarrow>
               if \<not> single then Inl KeyError
               else find_dependencies single outs rest prereq))"

fun update_outputs :: "nat \<Rightarrow> DatasetRef list \<Rightarrow> outputs_map \<Rightarrow> outputs_map" where
  "update_outputs index [] outs = outs"
| "update_outputs index (dataRef # rest) outs =
     update_outputs index rest (outs((datasetType_name dataRef, dataId dataRef) \<mapsto> index))"

definition is_single :: "QuantumGraph \<Rightarrow> bool" where
  "is_single graph = (length graph = 1 \<and> length (quanta (graph ! 0)) = 1)"

text \<open>
  A generator's run is the list of values it yielded and how it ended: \<open>None\<close> for a normal
  end, \<open>Some e\<close> for the exception that ended it.
\<close>

type_synonym 'a generator_run = "'a list \<times> py_error option"

text \<open>
  The inner loop, over the quanta of one task; the state is the index and the outputs.
  The loops are written for any constructor \<open>new\<close> of the record, which receives the four
  keyword arguments of the \<^verbatim>\<open>yield\<close> statement; \<open>traverse\<close> below runs them with the
  constructor of the dataclass.
\<close>

type_synonym record_constructor = "(string \<times> field_value) list \<Rightarrow> py_error + QuantumIterData"

fun traverse_quanta ::
  "record_constructor \<Rightarrow> bool \<Rightarrow> TaskDef \<Rightarrow> Quantum list \<Rightarrow> nat \<Rightarrow> outputs_map
     \<Rightarrow> QuantumIterData list \<Rightarrow> QuantumIterData list \<times> (py_error + nat \<times> outputs_map)" where
  "traverse_quanta new single td [] index outs yielded = (yielded, Inr (index, outs))"
| "traverse_quanta new single td (q # rest) index outs yielded =
     (case find_dependencies single outs (concat (map snd (predictedInputs q))) [] of
        Inl e \<Rightarrow> (yielded, Inl e)
      | Inr prereq \<Rightarrow>
          (let outs' = update_outputs index (concat (map snd (outputs q))) outs in
           case new [(''index'', IntVal index), (''quantum'', QuantumVal q),
                     (''taskDef'', TaskDefVal td), (''dependencies'', FrozenSetVal (set prereq))] of
             Inl e \<Rightarrow> (yielded, Inl e)
           | Inr rec0 \<Rightarrow>
               traverse_quanta new single td rest (index + 1) outs' (yielded @ [rec0])))"

text \<open>
  The outer loop, over the task definitions that \<^verbatim>\<open>orderPipeline\<close> returned; each is
  looked up in \<^verbatim>\<open>nodesMap\<close> when its turn comes (KeyError when it is not there).
\<close>

fun traverse_nodes ::
  "record_constructor \<Rightarrow> bool \<Rightarrow> (nat \<rightharpoonup> QuantumGraphTaskNodes) \<Rightarrow> TaskDef list \<Rightarrow> nat
     \<Rightarrow> outputs_map \<Rightarrow> QuantumIterData list \<Rightarrow> QuantumIterData generator_run" where
  "traverse_nodes new single nodes_map [] index outs yielded = (yielded, None)"
| "traverse_nodes new single nodes_map (task # rest) index outs yielded =
     (case nodes_map (object_id task) of
        None \<Rightarrow> (yielded, Some KeyError)
      | Some nodes \<Rightarrow>
          (case traverse_quanta new single (taskDef nodes) (quanta nodes) index outs yielded of
             (yielded', Inl e) \<Rightarrow> (yielded', Some e)
           | (yielded', Inr (index', outs')) \<Rightarrow>
               traverse_nodes new single nodes_map rest index' outs' yielded'))"

definition traverse_with ::
  "record_constructor \<Rightarrow> (TaskDef list \<Rightarrow> py_error + TaskDef list) \<Rightarrow> QuantumGraph
     \<Rightarrow> QuantumIterData generator_run" where
  "traverse_with new orderPipeline self =
     (case orderPipeline (map taskDef self) of
        Inl e \<Rightarrow> ([], Some e)
      | Inr pipeline \<Rightarrow>
          traverse_nodes new (is_single self) (nodesMap self) pipeline 0 Map.empty [])"

text \<open>\<^verbatim>\<open>QuantumGraph.traverse\<close>: the records are built by \<^verbatim>\<open>QuantumIterData(...)\<close>.\<close>

definition traverse ::
  "(TaskDef list \<Rightarrow> py_error + TaskDef list) \<Rightarrow> QuantumGraph \<Rightarrow> QuantumIterData generator_run" where
  "traverse orderPipeline self = traverse_with QuantumIterData_init orderPipeline self"




text \<open>The scenarios of the traversal: tasks A and B, datasets \<open>x\<close>, \<open>y\<close> and \<open>z\<close>.\<close>

definition no_order :: "TaskDef list \<Rightarrow> py_error + TaskDef list" where
  "no_order tds = Inr tds"


definition ref_y :: DatasetRef where
  "ref_y = \<lparr>ref_id = None, datasetType_name = ''y'', dataId = [(''visit'', 1)]\<rparr>"

definition ref_z :: DatasetRef where
  "ref_z = \<lparr>ref_id = None, datasetType_name = ''z'', dataId = [(''visit'', 1)]\<rparr>"


definition task_B :: TaskDef where
  "task_B = \<lparr>object_id = 2, label = ''B''\<rparr>"



definition quantum_Z :: Quantum where
  "quantum_Z = \<lparr>predictedInputs = [(''z'', [ref_z])], outputs = [(''y'', [ref_y])]\<rparr>"


definition split_graph :: QuantumGraph where
  "split_graph = [\<lparr>taskDef = task_B, quanta = [quantum_Z]\<rparr>]"

definition two_quanta_graph :: QuantumGraph where
  "two_quanta_graph = [\<lparr>taskDef = task_B, quanta = [quantum_Z, quantum_Z]\<rparr>]"

section \<open>Dataset type resolution (\<^verbatim>\<open>pipeline_graph/_dataset_types.py\<close>)\<close>

record DatasetType =
  dt_name :: string
  dt_dimensions :: "string list"
  storageClass_name :: string

record DatasetTypeNode =
  dataset_type :: DatasetType
  is_initial_query_constraint :: bool
  is_prerequisite :: bool

text \<open>
  The edges are declared in \<^verbatim>\<open>_edges.py\<close>, outside the files at hand; the fields are those
  of the data model (task label, dataset type name, requested storage class and dimensions,
  component, flags).
\<close>

record WriteEdge =
  w_task_label :: string
  w_dataset_type_name :: string
  w_storage_class_name :: string
  w_dimensions :: "string list"

record ReadEdge =
  r_task_label :: string
  r_dataset_type_name :: string
  r_storage_class_name :: string
  r_dimensions :: "string list"
  component :: "string option"
  defer_query_constraint :: bool
  prerequisite_input :: bool

text \<open>
  The results of the two methods \<^verbatim>\<open>WriteEdge._resolve_dataset_type\<close> and
  \<^verbatim>\<open>ReadEdge._resolve_dataset_type\<close>, which are parameters of the resolution. The second
  takes the current definition, the two flags, \<^verbatim>\<open>is_registered\<close>, the producer and the
  consumers met so far.
\<close>

type_synonym write_resolver = "WriteEdge \<Rightarrow> DatasetType option \<Rightarrow> py_error + DatasetType"

type_synonym read_resolver =
  "ReadEdge \<Rightarrow> DatasetType option \<Rightarrow> bool \<Rightarrow> bool option \<Rightarrow> bool \<Rightarrow> string option \<Rightarrow> string list
     \<Rightarrow> py_error + DatasetType \<times> bool \<times> bool"

text \<open>
  The loop over \<^verbatim>\<open>xgraph.in_edges(key, data="instance")\<close>. The state is
  (\<^verbatim>\<open>dataset_type\<close>, \<^verbatim>\<open>is_initial_query_constraint\<close>, \<^verbatim>\<open>is_prerequisite\<close>, \<^verbatim>\<open>producer\<close>).
  The error carries the three names the message formats: the dataset type, the task of the
  edge at hand and the producer found before.
\<close>

fun write_edges_loop ::
  "write_resolver \<Rightarrow> string \<Rightarrow> WriteEdge list \<Rightarrow> DatasetType option \<Rightarrow> bool \<Rightarrow> bool option
     \<Rightarrow> string option \<Rightarrow> py_error + DatasetType option \<times> bool \<times> bool option \<times> string option" where
  "write_edges_loop wres key_name [] dt iqc prereq producer = Inr (dt, iqc, prereq, producer)"
| "write_edges_loop wres key_name (write_edge # rest) dt iqc prereq producer =
     (case producer of
        Some p \<Rightarrow> Inl (DuplicateOutputError key_name (w_task_label write_edge) p)
      | None \<Rightarrow>
          (case wres write_edge dt of
             Inl e \<Rightarrow> Inl e
           | Inr dt' \<Rightarrow>
               write_edges_loop wres key_name rest (Some dt') False (Some False)
                 (Some (w_task_label write_edge))))"

text \<open>The loop over the sorted read edges; \<^verbatim>\<open>consumers\<close> grows by one label per edge.\<close>

fun read_edges_loop ::
  "read_resolver \<Rightarrow> ReadEdge list \<Rightarrow> DatasetType option \<Rightarrow> bool \<Rightarrow> bool option \<Rightarrow> bool
     \<Rightarrow> string option \<Rightarrow> string list \<Rightarrow> py_error + DatasetType option \<times> bool \<times> bool option" where
  "read_edges_loop rres [] dt iqc prereq is_registered producer consumers = Inr (dt, iqc, prereq)"
| "read_edges_loop rres (read_edge # rest) dt iqc prereq is_registered producer consumers =
     (case rres read_edge dt iqc prereq is_registered producer consumers of
        Inl e \<Rightarrow> Inl e
      | Inr (dt', iqc', prereq') \<Rightarrow>
          read_edges_loop rres rest (Some dt') iqc' (Some prereq') is_registered producer
            (consumers @ [r_task_label read_edge]))"

text \<open>The part of \<^verbatim>\<open>_from_edges\<close> after the early return of the previous node.\<close>

definition from_edges_body ::
  "write_resolver \<Rightarrow> read_resolver \<Rightarrow> string \<Rightarrow> WriteEdge list \<Rightarrow> ReadEdge list
     \<Rightarrow> DatasetType option \<Rightarrow> bool \<Rightarrow> py_error + DatasetTypeNode" where
  "from_edges_body wres rres key_name write_edges read_edges dataset_type0 is_registered =
     (case write_edges_loop wres key_name write_edges dataset_type0 True None None of
        Inl e \<Rightarrow> Inl e
      | Inr (dt1, iqc1, prereq1, producer) \<Rightarrow>
          (case read_edges_loop rres (sort_key (\<lambda>read_edge. component read_edge \<noteq> None) read_edges)
                  dt1 iqc1 prereq1 is_registered producer [] of
             Inl e \<Rightarrow> Inl e
           | Inr (dt2, iqc2, prereq2) \<Rightarrow>
               (case dt2 of
                  None \<Rightarrow> Inl AssertionError
                | Some dt \<Rightarrow>
                    (case prereq2 of
                       None \<Rightarrow> Inl AssertionError
                     | Some prereq \<Rightarrow>
                         Inr \<lparr>dataset_type = dt, is_initial_query_constraint = iqc2,
                              is_prerequisite = prereq\<rparr>))))"

text \<open>
  \<^verbatim>\<open>DatasetTypeNode._from_edges\<close>. The registry is the lookup \<^verbatim>\<open>getDatasetType\<close>
  (\<open>None\<close>: MissingDatasetTypeError); \<open>write_edges\<close> and \<open>read_edges\<close> are what the graph
  returns for \<^verbatim>\<open>in_edges(key)\<close> and \<^verbatim>\<open>out_edges(key)\<close>, in its order. The sort is stable
  on the key \<^verbatim>\<open>component is not None\<close>.
\<close>

definition from_edges ::
  "write_resolver \<Rightarrow> read_resolver \<Rightarrow> string \<Rightarrow> WriteEdge list \<Rightarrow> ReadEdge list
     \<Rightarrow> (string \<rightharpoonup> DatasetType) \<Rightarrow> DatasetTypeNode option \<Rightarrow> py_error + DatasetTypeNode" where
  "from_edges wres rres key_name write_edges read_edges registry previous =
     (let dataset_type0 = registry key_name;
          is_registered = (dataset_type0 \<noteq> None)
      in case previous of
           Some prev \<Rightarrow>
             if Some (dataset_type prev) = dataset_type0 then Inr prev
             else from_edges_body wres rres key_name write_edges read_edges dataset_type0 is_registered
         | None \<Rightarrow>
             from_edges_body wres rres key_name write_edges read_edges dataset_type0 is_registered)"

text \<open>
  What is passed as \<^verbatim>\<open>previous\<close>. The comment of the early return says that such a node
  ``was already resolved (with exactly the same edges contributing, since we clear
  resolutions when edges are added or removed)'', and that only the definition in the
  registry may have changed since. So the nodes that can reach \<^verbatim>\<open>_from_edges\<close> as
  \<^verbatim>\<open>previous\<close> are those that a resolution of the same vertex with the same edges returned:
  the first one without previous node, each later one with a node returned before, against
  whatever the registry holds at that time.
\<close>

inductive resolved ::
  "write_resolver \<Rightarrow> read_resolver \<Rightarrow> string \<Rightarrow> WriteEdge list \<Rightarrow> ReadEdge list
     \<Rightarrow> DatasetTypeNode \<Rightarrow> bool"
  for wres rres key_name write_edges read_edges where
  first: "from_edges wres rres key_name write_edges read_edges registry None = Inr n
            \<Longrightarrow> resolved wres rres key_name write_edges read_edges n"
| again: "resolved wres rres key_name write_edges read_edges p
            \<Longrightarrow> from_edges wres rres key_name write_edges read_edges registry (Some p) = Inr n
            \<Longrightarrow> resolved wres rres key_name write_edges read_edges n"

text \<open>
  Modelled from the spec: \<^verbatim>\<open>ReadEdge._resolve_dataset_type\<close>, which is declared in
  \<^verbatim>\<open>_edges.py\<close>, outside the files at hand. The definition the edge settles on is left to
  the parameter \<open>definition_of\<close> (it may fail with an incompatibility error). The flags
  follow the spec: a dataset type is an initial query constraint only if all consuming
  edges request it (one deferring edge disables it for all); it is a prerequisite if an
  edge allows that; and what is produced in the graph is neither, as the write edge forced.
\<close>

definition ReadEdge_resolve_dataset_type ::
  "(ReadEdge \<Rightarrow> DatasetType option \<Rightarrow> py_error + DatasetType) \<Rightarrow> read_resolver" where
  "ReadEdge_resolve_dataset_type definition_of read_edge current iqc prereq is_registered producer consumers =
     (case definition_of read_edge current of
        Inl e \<Rightarrow> Inl e
      | Inr dt \<Rightarrow>
          Inr (dt,
               iqc \<and> \<not> defer_query_constraint read_edge,
               (case prereq of
                  None \<Rightarrow> prerequisite_input read_edge
                | Some p \<Rightarrow> p \<or> (prerequisite_input read_edge \<and> producer = None))))"

text \<open>
  Modelled from the spec: \<^verbatim>\<open>WriteEdge._resolve_dataset_type\<close>, which is declared in
  \<^verbatim>\<open>_edges.py\<close>, outside the files at hand. By the spec the write edge ``may
  narrow/replace the canonical definition'', and ``incompatible requests fail with a
  storage-class/dimension incompatibility error identifying the offending task and edge''.
  Without a current definition the edge's own declaration stands; with one, the dimensions
  must agree and the storage class of the edge must convert to the current one, and the
  current definition is kept. Which storage classes convert is left to the parameter
  \<open>can_convert\<close>.
\<close>

definition WriteEdge_resolve_dataset_type :: "(string \<Rightarrow> string \<Rightarrow> bool) \<Rightarrow> write_resolver" where
  "WriteEdge_resolve_dataset_type can_convert write_edge current =
     (case current of
        None \<Rightarrow>
          Inr \<lparr>dt_name = w_dataset_type_name write_edge, dt_dimensions = w_dimensions write_edge,
               storageClass_name = w_storage_class_name write_edge\<rparr>
      | Some dt \<Rightarrow>
          if dt_dimensions dt \<noteq> w_dimensions write_edge
             \<or> \<not> can_convert (w_storage_class_name write_edge) (storageClass_name dt)
          then Inl (IncompatibleDatasetTypeError (w_task_label write_edge)
                      (w_dataset_type_name write_edge))
          else Inr dt)"

text \<open>The scenarios of tasks writing and reading \<open>calib\<close>.\<close>

definition calib :: DatasetType where
  "calib = \<lparr>dt_name = ''calib'', dt_dimensions = [''instrument'', ''detector''],
            storageClass_name = ''ExposureF''\<rparr>"

definition write_calib_A :: WriteEdge where
  "write_calib_A = \<lparr>w_task_label = ''A'', w_dataset_type_name = ''calib'',
                    w_storage_class_name = ''ExposureF'',
                    w_dimensions = [''instrument'', ''detector'']\<rparr>"


definition read_calib_C :: ReadEdge where
  "read_calib_C = \<lparr>r_task_label = ''C'', r_dataset_type_name = ''calib'',
                   r_storage_class_name = ''ExposureF'',
                   r_dimensions = [''instrument'', ''detector''],
                   component = None, defer_query_constraint = False,
                   prerequisite_input = False\<rparr>"

definition calib_registry :: "string \<rightharpoonup> DatasetType" where
  "calib_registry = [''calib'' \<mapsto> calib]"


definition same_storage_class :: "string \<Rightarrow> string \<Rightarrow> bool" where
  "same_storage_class requested current = (requested = current)"

text \<open>A read edge that takes the definition it declares, whatever the current one.\<close>

definition declared_by_read :: "ReadEdge \<Rightarrow> DatasetType option \<Rightarrow> py_error + DatasetType" where
  "declared_by_read read_edge current =
     Inr \<lparr>dt_name = r_dataset_type_name read_edge, dt_dimensions = r_dimensions read_edge,
          storageClass_name = r_storage_class_name read_edge\<rparr>"

section \<open>Exported graphs (\<^verbatim>\<open>networkx.DiGraph\<close>)\<close>

text \<open>
  A directed graph of networkx, as far as the visualization reads and writes it: the node
  dictionary in insertion order, each node with its attribute dictionary, and the edges in
  insertion order. An attribute dictionary lists its items in insertion order; the values
  that the merge compares are strings or \<^verbatim>\<open>None\<close>.
\<close>

type_synonym xstate = "(string \<times> string option) list"

text \<open>\<^verbatim>\<open>d[k] = v\<close> on a dictionary in insertion order, and \<^verbatim>\<open>d.update(items)\<close>.\<close>

fun dict_set :: "'k \<Rightarrow> 'v \<Rightarrow> ('k \<times> 'v) list \<Rightarrow> ('k \<times> 'v) list" where
  "dict_set k v [] = [(k, v)]"
| "dict_set k v ((k', v') # rest) =
     (if k' = k then (k', v) # rest else (k', v') # dict_set k v rest)"

definition dict_update :: "('k \<times> 'v) list \<Rightarrow> ('k \<times> 'v) list \<Rightarrow> ('k \<times> 'v) list" where
  "dict_update d items = fold (\<lambda>(k, v) acc. dict_set k v acc) items d"

record xgraph =
  xnodes :: "(node \<times> xstate) list"
  xedges :: "(node \<times> node) list"

definition node_keys :: "xgraph \<Rightarrow> node list" where
  "node_keys g = map fst (xnodes g)"

definition has_node :: "xgraph \<Rightarrow> node \<Rightarrow> bool" where
  "has_node g n = (n \<in> set (node_keys g))"

definition predecessors :: "xgraph \<Rightarrow> node \<Rightarrow> node list" where
  "predecessors g n = map fst (filter (\<lambda>e. snd e = n) (xedges g))"

definition successors :: "xgraph \<Rightarrow> node \<Rightarrow> node list" where
  "successors g n = map snd (filter (\<lambda>e. fst e = n) (xedges g))"

definition in_edges :: "xgraph \<Rightarrow> node \<Rightarrow> (node \<times> node) list" where
  "in_edges g n = filter (\<lambda>e. snd e = n) (xedges g)"

definition out_edges :: "xgraph \<Rightarrow> node \<Rightarrow> (node \<times> node) list" where
  "out_edges g n = filter (\<lambda>e. fst e = n) (xedges g)"

text \<open>\<^verbatim>\<open>add_node(n, **attr)\<close>: a new node is appended, an old one has its attributes updated.\<close>

definition add_node :: "xgraph \<Rightarrow> node \<Rightarrow> xstate \<Rightarrow> xgraph" where
  "add_node g n attr =
     (if has_node g n
      then g\<lparr>xnodes := map (\<lambda>(k, st). if k = n then (k, dict_update st attr) else (k, st)) (xnodes g)\<rparr>
      else g\<lparr>xnodes := xnodes g @ [(n, attr)]\<rparr>)"

text \<open>\<^verbatim>\<open>add_edge(u, v)\<close>: an endpoint that is not a node yet becomes one, \<open>u\<close> first.\<close>

definition add_edge :: "xgraph \<Rightarrow> node \<Rightarrow> node \<Rightarrow> xgraph" where
  "add_edge g u v =
     (let g1 = (if has_node g u then g else g\<lparr>xnodes := xnodes g @ [(u, [])]\<rparr>);
          g2 = (if has_node g1 v then g1 else g1\<lparr>xnodes := xnodes g1 @ [(v, [])]\<rparr>)
      in if (u, v) \<in> set (xedges g2) then g2 else g2\<lparr>xedges := xedges g2 @ [(u, v)]\<rparr>)"

fun add_edges_from :: "xgraph \<Rightarrow> (node \<times> node) list \<Rightarrow> xgraph" where
  "add_edges_from g [] = g"
| "add_edges_from g ((u, v) # es) = add_edges_from (add_edge g u v) es"

text \<open>\<^verbatim>\<open>remove_nodes_from\<close>: the nodes go with their edges; a node that is absent is skipped.\<close>

definition remove_nodes_from :: "xgraph \<Rightarrow> (node \<Rightarrow> bool) \<Rightarrow> xgraph" where
  "remove_nodes_from g gone =
     g\<lparr>xnodes := filter (\<lambda>(k, st). \<not> gone k) (xnodes g),
       xedges := filter (\<lambda>(u, v). \<not> gone u \<and> \<not> gone v) (xedges g)\<rparr>"

text \<open>\<^verbatim>\<open>reverse(copy=False)\<close>: the view with every edge turned around.\<close>

definition reverse :: "xgraph \<Rightarrow> xgraph" where
  "reverse g = g\<lparr>xedges := map (\<lambda>(u, v). (v, u)) (xedges g)\<rparr>"

text \<open>Every edge of a networkx graph joins two of its nodes, and a node has one entry.\<close>

definition wf_xgraph :: "xgraph \<Rightarrow> bool" where
  "wf_xgraph g =
     (distinct (node_keys g) \<and> distinct (xedges g)
      \<and> (\<forall>(u, v) \<in> set (xedges g). u \<in> set (node_keys g) \<and> v \<in> set (node_keys g)))"

section \<open>Merge options and merge keys (\<^verbatim>\<open>_options.py\<close>, \<^verbatim>\<open>_merge.py\<close>)\<close>

text \<open>
  \<^verbatim>\<open>NodeAttributeOptions\<close>: the first two fields are \<^verbatim>\<open>"full"\<close>, \<^verbatim>\<open>"concise"\<close>,
  \<^verbatim>\<open>False\<close> or \<^verbatim>\<open>None\<close>, the third a boolean or \<^verbatim>\<open>None\<close>. The merge reads their truth
  value.
\<close>

datatype display = Full | Concise | Off | Unset

record NodeAttributeOptions =
  opt_dimensions :: display
  opt_task_classes :: display
  opt_storage_classes :: "bool option"

fun truthy :: "display \<Rightarrow> bool" where
  "truthy Full = True"
| "truthy Concise = True"
| "truthy Off = False"
| "truthy Unset = False"

text \<open>
  \<^verbatim>\<open>_MergeKey\<close>, generic in the types of parents and children. A tree merge key has merge
  keys of its own kind as children.
\<close>

datatype ('p, 'c) MergeKey =
  MergeKey (mk_parents: "'p fset") (mk_dimensions: "string option")
    (mk_storage_class_name: "string option") (mk_task_class_name: "string option")
    (mk_children: "'c fset")

datatype TreeMergeKey = TreeMergeKey (tree_key: "(node, TreeMergeKey) MergeKey")

definition state_get :: "xstate \<Rightarrow> string \<Rightarrow> string option" where
  "state_get state name = (case map_of state name of None \<Rightarrow> None | Some v \<Rightarrow> v)"

text \<open>\<^verbatim>\<open>_MergeKey.from_node_state\<close>; \<^verbatim>\<open>state["dimensions"]\<close> raises KeyError when absent.\<close>

definition from_node_state ::
  "xstate \<Rightarrow> 'p list \<Rightarrow> 'c list \<Rightarrow> NodeAttributeOptions \<Rightarrow> py_error + ('p, 'c) MergeKey" where
  "from_node_state state ps cs options =
     (let storage = (if opt_storage_classes options = Some True
                     then state_get state ''storage_class_name'' else None);
          task = (if truthy (opt_task_classes options)
                  then state_get state ''task_class_name'' else None)
      in if truthy (opt_dimensions options) then
           (case map_of state ''dimensions'' of
              None \<Rightarrow> Inl KeyError
            | Some d \<Rightarrow> Inr (MergeKey (fset_of_list ps) d storage task (fset_of_list cs)))
         else Inr (MergeKey (fset_of_list ps) None storage task (fset_of_list cs)))"

text \<open>The attributes that a merged node is added with.\<close>

definition merged_state :: "('p, 'c) MergeKey \<Rightarrow> xstate" where
  "merged_state merge_key =
     [(''storage_class_name'', mk_storage_class_name merge_key),
      (''task_class_name'', mk_task_class_name merge_key),
      (''dimensions'', mk_dimensions merge_key)]"

text \<open>
  A \<^verbatim>\<open>defaultdict(set)\<close> in insertion order: \<^verbatim>\<open>groups[key].add(node)\<close> and
  \<^verbatim>\<open>groups[key].update(nodes)\<close>. The members of a group are listed in the order they came.
\<close>

fun group_add :: "'k \<Rightarrow> node \<Rightarrow> ('k \<times> node list) list \<Rightarrow> ('k \<times> node list) list" where
  "group_add key n [] = [(key, [n])]"
| "group_add key n ((k, members) # rest) =
     (if k = key then (k, if n \<in> set members then members else members @ [n]) # rest
      else (k, members) # group_add key n rest)"

fun group_update :: "'k \<Rightarrow> node list \<Rightarrow> ('k \<times> node list) list \<Rightarrow> ('k \<times> node list) list" where
  "group_update key [] groups = (if key \<in> fst ` set groups then groups else groups @ [(key, [])])"
| "group_update key (n # ns) groups = group_update key ns (group_add key n groups)"

text \<open>\<^verbatim>\<open>replacements.get(n, n)\<close>.\<close>

definition get_or_self :: "(node \<rightharpoonup> node) \<Rightarrow> node \<Rightarrow> node" where
  "get_or_self replacements n = (case replacements n of None \<Rightarrow> n | Some m \<Rightarrow> m)"

text \<open>
  A frozenset of nodes is iterated in some order that Python does not fix; the model
  takes the order in which the nodes stand in a list \<open>order\<close> that holds them.
\<close>

definition iterate :: "node list \<Rightarrow> node fset \<Rightarrow> node list" where
  "iterate order S = filter (\<lambda>n. n |\<in>| S) order"

section \<open>Merging intermediates (\<^verbatim>\<open>merge_graph_intermediates\<close>)\<close>

text \<open>The first loop: the merge key of every node, and the groups of the intermediates.\<close>

fun intermediate_groups ::
  "xgraph \<Rightarrow> NodeAttributeOptions \<Rightarrow> (node \<times> xstate) list
     \<Rightarrow> ((node, node) MergeKey \<times> node list) list
     \<Rightarrow> py_error + ((node, node) MergeKey \<times> node list) list" where
  "intermediate_groups g options [] groups = Inr groups"
| "intermediate_groups g options ((n, state) # rest) groups =
     (case from_node_state state (predecessors g n) (successors g n) options of
        Inl e \<Rightarrow> Inl e
      | Inr merge_key \<Rightarrow>
          if mk_parents merge_key \<noteq> {||} \<and> mk_children merge_key \<noteq> {||}
          then intermediate_groups g options rest (group_add merge_key n groups)
          else intermediate_groups g options rest groups)"

text \<open>The body of the second loop, for one group.\<close>

definition merge_intermediate_group ::
  "node list \<Rightarrow> (node, node) MergeKey \<Rightarrow> node list \<Rightarrow> xgraph \<times> (node \<rightharpoonup> node)
     \<Rightarrow> xgraph \<times> (node \<rightharpoonup> node)" where
  "merge_intermediate_group order merge_key members s =
     (case s of (g, replacements) \<Rightarrow>
        if length members < 2 then (g, replacements)
        else
          (let new_node_key = MergedNodeKey (fset_of_list members);
               g1 = add_node g new_node_key (merged_state merge_key);
               g2 = fold (\<lambda>parent h. add_edge h (get_or_self replacements parent) new_node_key)
                      (iterate order (mk_parents merge_key)) g1;
               g3 = fold (\<lambda>child h. add_edge h new_node_key (get_or_self replacements child))
                      (iterate order (mk_children merge_key)) g2;
               replacements' = (\<lambda>n. if n \<in> set members then Some new_node_key else replacements n)
           in (remove_nodes_from g3 (\<lambda>n. n \<in> set members), replacements')))"

fun merge_intermediate_groups ::
  "node list \<Rightarrow> ((node, node) MergeKey \<times> node list) list \<Rightarrow> xgraph \<times> (node \<rightharpoonup> node)
     \<Rightarrow> xgraph \<times> (node \<rightharpoonup> node)" where
  "merge_intermediate_groups order [] s = s"
| "merge_intermediate_groups order ((merge_key, members) # rest) s =
     merge_intermediate_groups order rest (merge_intermediate_group order merge_key members s)"

definition merge_graph_intermediates :: "xgraph \<Rightarrow> NodeAttributeOptions \<Rightarrow> py_error + xgraph" where
  "merge_graph_intermediates xgraph options =
     (case intermediate_groups xgraph options (xnodes xgraph) [] of
        Inl e \<Rightarrow> Inl e
      | Inr groups \<Rightarrow>
          Inr (fst (merge_intermediate_groups (node_keys xgraph) groups (xgraph, Map.empty))))"

section \<open>Merging trees (\<^verbatim>\<open>_make_tree_merge_groups\<close>, \<^verbatim>\<open>_apply_tree_merges\<close>)\<close>

type_synonym tree_groups = "(TreeMergeKey \<times> node list) list"
type_synonym candidates = "(node \<times> (node \<times> TreeMergeKey) list) list"

text \<open>
  The first value of \<^verbatim>\<open>networkx.topological_generations\<close>: the nodes without incoming
  edge, in node order. When there is none, the generator raises NetworkXUnfeasible if the
  graph has nodes, and ends at once if it has none, which \<^verbatim>\<open>next\<close> turns into StopIteration.
\<close>

definition first_generation :: "xgraph \<Rightarrow> py_error + node list" where
  "first_generation g =
     (let zero_indegree = filter (\<lambda>n. predecessors g n = []) (node_keys g)
      in if zero_indegree \<noteq> [] then Inr zero_indegree
         else if node_keys g \<noteq> [] then Inl NetworkXUnfeasible
         else Inl StopIteration)"

text \<open>\<^verbatim>\<open>next_candidates[parent][node] = key\<close> on a \<^verbatim>\<open>defaultdict(dict)\<close>.\<close>

definition candidate_set :: "node \<Rightarrow> node \<Rightarrow> TreeMergeKey \<Rightarrow> candidates \<Rightarrow> candidates" where
  "candidate_set parent n key cands =
     dict_set parent (dict_set n key (case map_of cands parent of None \<Rightarrow> [] | Some d \<Rightarrow> d)) cands"

text \<open>
  The inner loop over the candidates of one depth. The state is
  (\<^verbatim>\<open>next_candidates\<close>, \<^verbatim>\<open>nontrees\<close>, \<^verbatim>\<open>result_for_depth\<close>); \<open>grow\<close> is the test
  \<^verbatim>\<open>len(result) <= depth\<close>, which does not change during the loop.
\<close>

fun tree_level ::
  "xgraph \<Rightarrow> NodeAttributeOptions \<Rightarrow> bool \<Rightarrow> candidates \<Rightarrow> candidates \<times> node list \<times> tree_groups
     \<Rightarrow> py_error + candidates \<times> node list \<times> tree_groups" where
  "tree_level g options grow [] s = Inr s"
| "tree_level g options grow ((n, children) # rest) (next_candidates, nontrees, result_for_depth) =
     (case map_of (xnodes g) n of
        None \<Rightarrow> Inl KeyError
      | Some state \<Rightarrow>
          (case from_node_state state (successors g n) (map snd children) options of
             Inl e \<Rightarrow> Inl e
           | Inr merge_key \<Rightarrow>
               (let result_for_depth' = group_add (TreeMergeKey merge_key) n result_for_depth
                in if grow then
                     (case remdups (successors g n) of
                        [parent] \<Rightarrow>
                          tree_level g options grow rest
                            (candidate_set parent n
                               (TreeMergeKey (MergeKey {||} (mk_dimensions merge_key)
                                  (mk_storage_class_name merge_key) (mk_task_class_name merge_key)
                                  (mk_children merge_key)))
                               next_candidates,
                             nontrees, result_for_depth')
                      | parents \<Rightarrow>
                          tree_level g options grow rest
                            (next_candidates, nontrees @ parents, result_for_depth'))
                   else tree_level g options grow rest (next_candidates, nontrees, result_for_depth'))))"

lemma tree_level_no_growth:
  "tree_level g options False cands (next_candidates, nontrees, rfd) = Inr (next', nontrees', rfd')
     \<Longrightarrow> next' = next_candidates"
proof (induction cands arbitrary: rfd)
  case Nil
  then show ?case by simp
next
  case (Cons c cands)
  obtain n children where c: "c = (n, children)" by (cases c)
  from Cons.prems c obtain rfd1 where
    "tree_level g options False cands (next_candidates, nontrees, rfd1) = Inr (next', nontrees', rfd')"
    by (auto simp: Let_def split: option.splits sum.splits)
  from Cons.IH[OF this] show ?case .
qed

text \<open>The outer \<^verbatim>\<open>while current_candidates\<close> loop.\<close>

function tree_levels ::
  "xgraph \<Rightarrow> NodeAttributeOptions \<Rightarrow> nat \<Rightarrow> tree_groups list \<Rightarrow> candidates
     \<Rightarrow> py_error + tree_groups list" where
  "tree_levels g options depth result current_candidates =
     (if current_candidates = [] then Inr result
      else
        (case tree_level g options (length result \<le> depth) current_candidates ([], [], []) of
           Inl e \<Rightarrow> Inl e
         | Inr (next_candidates, nontrees, result_for_depth) \<Rightarrow>
             tree_levels g options depth (result @ [result_for_depth])
               (filter (\<lambda>(k, d). k \<notin> set nontrees) next_candidates)))"
  by pat_completeness auto
termination
proof (relation "measure (\<lambda>(g, options, depth, result, current).
          2 * (depth + 1 - length result) + (if current = [] then 0 else 1))", goal_cases)
  case 1
  show ?case by simp
next
  case (2 g options depth result current x2 next_candidates y nontrees rfd)
  show ?case
  proof (cases "length result \<le> depth")
    case True
    then show ?thesis by auto
  next
    case False
    with 2 have "next_candidates = []"
      using tree_level_no_growth[of g options current "[]" "[]" "[]" next_candidates nontrees rfd]
      by simp
    with 2 False show ?thesis by simp
  qed
qed

definition make_tree_merge_groups ::
  "xgraph \<Rightarrow> NodeAttributeOptions \<Rightarrow> nat \<Rightarrow> py_error + tree_groups list" where
  "make_tree_merge_groups xgraph options depth =
     (if depth = 0 then Inr [[]]
      else
        (case first_generation xgraph of
           Inl e \<Rightarrow> Inl e
         | Inr generation \<Rightarrow>
             tree_levels xgraph options depth [[]] (map (\<lambda>n. (n, [])) generation)))"

text \<open>The first inner loop of \<^verbatim>\<open>_apply_tree_merges\<close>: the group regrouped under replaced parents.\<close>

fun regroup ::
  "(node \<rightharpoonup> node) \<Rightarrow> tree_groups \<Rightarrow> tree_groups \<Rightarrow> tree_groups" where
  "regroup replacements [] new_group = new_group"
| "regroup replacements ((merge_key, members) # rest) new_group =
     (let k = tree_key merge_key in
      if \<exists>p \<in> fset (mk_parents k). replacements p \<noteq> None
      then regroup replacements rest
             (group_update
                (TreeMergeKey (MergeKey (get_or_self replacements |`| mk_parents k) (mk_dimensions k)
                   (mk_storage_class_name k) (mk_task_class_name k) (mk_children k)))
                members new_group)
      else regroup replacements rest (group_update merge_key members new_group))"

definition edges_update :: "(node \<times> node) list \<Rightarrow> (node \<times> node) list \<Rightarrow> (node \<times> node) list" where
  "edges_update new_edges es = fold (\<lambda>e acc. if e \<in> set acc then acc else acc @ [e]) es new_edges"

text \<open>The loop over the members of one group: each is replaced, and its edges are rewritten.\<close>

fun replace_members ::
  "xgraph \<Rightarrow> node \<Rightarrow> node list \<Rightarrow> (node \<rightharpoonup> node) \<times> (node \<times> node) list
     \<Rightarrow> (node \<rightharpoonup> node) \<times> (node \<times> node) list" where
  "replace_members g new_node_key [] s = s"
| "replace_members g new_node_key (member_key # rest) (replacements, new_edges) =
     (let replacements' = replacements(member_key \<mapsto> new_node_key);
          rewrite = map (\<lambda>(a, b). (get_or_self replacements' a, get_or_self replacements' b))
      in replace_members g new_node_key rest
           (replacements',
            edges_update (edges_update new_edges (rewrite (in_edges g member_key)))
              (rewrite (out_edges g member_key))))"

fun apply_group ::
  "tree_groups \<Rightarrow> xgraph \<times> (node \<rightharpoonup> node) \<Rightarrow> xgraph \<times> (node \<rightharpoonup> node)" where
  "apply_group [] s = s"
| "apply_group ((merge_key, members) # rest) (g, replacements) =
     (if length members < 2 then apply_group rest (g, replacements)
      else
        (let new_node_key = MergedNodeKey (fset_of_list members)
         in case replace_members g new_node_key members (replacements, []) of
              (replacements', new_edges) \<Rightarrow>
                apply_group rest
                  (add_edges_from (add_node g new_node_key (merged_state (tree_key merge_key))) new_edges,
                   replacements')))"

fun apply_groups ::
  "tree_groups list \<Rightarrow> xgraph \<times> (node \<rightharpoonup> node) \<Rightarrow> xgraph \<times> (node \<rightharpoonup> node)" where
  "apply_groups [] s = s"
| "apply_groups (grp # rest) (g, replacements) =
     apply_groups rest (apply_group (regroup replacements grp []) (g, replacements))"

definition apply_tree_merges :: "xgraph \<Rightarrow> tree_groups list \<Rightarrow> xgraph" where
  "apply_tree_merges xgraph groups =
     (case apply_groups (rev groups) (xgraph, Map.empty) of
        (g, replacements) \<Rightarrow> remove_nodes_from g (\<lambda>n. replacements n \<noteq> None))"

definition merge_graph_input_trees ::
  "xgraph \<Rightarrow> NodeAttributeOptions \<Rightarrow> nat \<Rightarrow> py_error + xgraph" where
  "merge_graph_input_trees xgraph options depth =
     (case make_tree_merge_groups xgraph options depth of
        Inl e \<Rightarrow> Inl e
      | Inr groups \<Rightarrow> Inr (apply_tree_merges xgraph groups))"

definition merge_graph_output_trees ::
  "xgraph \<Rightarrow> NodeAttributeOptions \<Rightarrow> nat \<Rightarrow> py_error + xgraph" where
  "merge_graph_output_trees xgraph options depth =
     (case make_tree_merge_groups (reverse xgraph) options depth of
        Inl e \<Rightarrow> Inl e
      | Inr groups \<Rightarrow> Inr (apply_tree_merges xgraph groups))"

text \<open>
  The three passes one after the other, in the order in which the module exports them
  (the function that calls them is outside the files at hand), each on the graph the one
  before left, with the same options and depth.
\<close>

definition merge_engine :: "xgraph \<Rightarrow> NodeAttributeOptions \<Rightarrow> nat \<Rightarrow> py_error + xgraph" where
  "merge_engine xgraph options depth =
     (case merge_graph_input_trees xgraph options depth of
        Inl e \<Rightarrow> Inl e
      | Inr g1 \<Rightarrow>
          (case merge_graph_output_trees g1 options depth of
             Inl e \<Rightarrow> Inl e
           | Inr g2 \<Rightarrow> merge_graph_intermediates g2 options))"

text \<open>
  Example graphs. No attribute is compared. In \<open>two_chains\<close> the inputs \<open>s0\<close> and \<open>t\<close>
  lead through \<open>s\<close> and \<open>x\<close> to the task \<open>c\<close>, and so do their copies; \<open>two_chains_merged\<close>
  is what one application of the passes makes of it. In \<open>shared_parents\<close> the tasks
  \<open>a\<close>, \<open>b\<close>, \<open>c\<close> have the parents \<open>p1\<close>, \<open>p2\<close> and the one child \<open>ch\<close>.
\<close>

definition no_options :: NodeAttributeOptions where
  "no_options = \<lparr>opt_dimensions = Off, opt_task_classes = Off, opt_storage_classes = Some False\<rparr>"

definition unmerged :: "node list \<Rightarrow> (node \<times> xstate) list" where
  "unmerged ns = map (\<lambda>n. (n, [])) ns"

definition merged_attrs :: xstate where
  "merged_attrs = [(''storage_class_name'', None), (''task_class_name'', None), (''dimensions'', None)]"

definition two_chains :: xgraph where
  "two_chains =
     \<lparr>xnodes = unmerged
        [NodeKey DATASET_TYPE ''s0'', NodeKey TASK ''s'', NodeKey DATASET_TYPE ''x'', NodeKey TASK ''c'',
         NodeKey TASK ''t'', NodeKey DATASET_TYPE ''s0b'', NodeKey TASK ''sb'',
         NodeKey DATASET_TYPE ''xb'', NodeKey TASK ''tb''],
      xedges =
        [(NodeKey DATASET_TYPE ''s0'', NodeKey TASK ''s''), (NodeKey TASK ''s'', NodeKey DATASET_TYPE ''x''),
         (NodeKey DATASET_TYPE ''x'', NodeKey TASK ''c''), (NodeKey TASK ''t'', NodeKey DATASET_TYPE ''x''),
         (NodeKey DATASET_TYPE ''s0b'', NodeKey TASK ''sb''), (NodeKey TASK ''sb'', NodeKey DATASET_TYPE ''xb''),
         (NodeKey DATASET_TYPE ''xb'', NodeKey TASK ''c''), (NodeKey TASK ''tb'', NodeKey DATASET_TYPE ''xb'')]\<rparr>"

definition merged_x :: node where
  "merged_x = MergedNodeKey (fset_of_list [NodeKey DATASET_TYPE ''x'', NodeKey DATASET_TYPE ''xb''])"

definition merged_t :: node where
  "merged_t = MergedNodeKey (fset_of_list [NodeKey TASK ''t'', NodeKey TASK ''tb''])"

definition merged_s :: node where
  "merged_s = MergedNodeKey (fset_of_list [NodeKey TASK ''s'', NodeKey TASK ''sb''])"

definition merged_s0 :: node where
  "merged_s0 = MergedNodeKey (fset_of_list [NodeKey DATASET_TYPE ''s0'', NodeKey DATASET_TYPE ''s0b''])"

definition two_chains_merged :: xgraph where
  "two_chains_merged =
     \<lparr>xnodes = unmerged
          [NodeKey DATASET_TYPE ''s0'', NodeKey TASK ''s'', NodeKey TASK ''c'',
           NodeKey DATASET_TYPE ''s0b'', NodeKey TASK ''sb'']
        @ [(merged_x, merged_attrs), (merged_t, merged_attrs)],
      xedges =
        [(NodeKey DATASET_TYPE ''s0'', NodeKey TASK ''s''), (NodeKey DATASET_TYPE ''s0b'', NodeKey TASK ''sb''),
         (NodeKey TASK ''s'', merged_x), (merged_x, NodeKey TASK ''c''),
         (NodeKey TASK ''sb'', merged_x), (merged_t, merged_x)]\<rparr>"

definition two_chains_merged_twice :: xgraph where
  "two_chains_merged_twice =
     \<lparr>xnodes = [(NodeKey TASK ''c'', []), (merged_x, merged_attrs), (merged_t, merged_attrs),
                (merged_s, merged_attrs), (merged_s0, merged_attrs)],
      xedges = [(merged_x, NodeKey TASK ''c''), (merged_t, merged_x), (merged_s, merged_x),
                (merged_s0, merged_s)]\<rparr>"

definition shared_parents :: xgraph where
  "shared_parents =
     \<lparr>xnodes = unmerged
        [NodeKey TASK ''r'', NodeKey DATASET_TYPE ''p1'', NodeKey DATASET_TYPE ''p2'',
         NodeKey TASK ''a'', NodeKey TASK ''b'', NodeKey TASK ''c'', NodeKey DATASET_TYPE ''ch''],
      xedges =
        [(NodeKey TASK ''r'', NodeKey DATASET_TYPE ''p1''), (NodeKey TASK ''r'', NodeKey DATASET_TYPE ''p2''),
         (NodeKey DATASET_TYPE ''p1'', NodeKey TASK ''a''), (NodeKey DATASET_TYPE ''p1'', NodeKey TASK ''b''),
         (NodeKey DATASET_TYPE ''p1'', NodeKey TASK ''c''), (NodeKey DATASET_TYPE ''p2'', NodeKey TASK ''a''),
         (NodeKey DATASET_TYPE ''p2'', NodeKey TASK ''b''), (NodeKey DATASET_TYPE ''p2'', NodeKey TASK ''c''),
         (NodeKey TASK ''a'', NodeKey DATASET_TYPE ''ch''), (NodeKey TASK ''b'', NodeKey DATASET_TYPE ''ch''),
         (NodeKey TASK ''c'', NodeKey DATASET_TYPE ''ch'')]\<rparr>"

definition shared_parents_merged :: xgraph where
  "shared_parents_merged =
     \<lparr>xnodes = [(NodeKey TASK ''r'', []), (NodeKey DATASET_TYPE ''ch'', []),
                (MergedNodeKey (fset_of_list [NodeKey DATASET_TYPE ''p1'', NodeKey DATASET_TYPE ''p2'']),
                 merged_attrs),
                (MergedNodeKey (fset_of_list [NodeKey TASK ''a'', NodeKey TASK ''b'', NodeKey TASK ''c'']),
                 merged_attrs)],
      xedges = [(NodeKey TASK ''r'',
                 MergedNodeKey (fset_of_list [NodeKey DATASET_TYPE ''p1'', NodeKey DATASET_TYPE ''p2''])),
                (MergedNodeKey (fset_of_list [NodeKey DATASET_TYPE ''p1'', NodeKey DATASET_TYPE ''p2'']),
                 MergedNodeKey (fset_of_list [NodeKey TASK ''a'', NodeKey TASK ''b'', NodeKey TASK ''c''])),
                (MergedNodeKey (fset_of_list [NodeKey TASK ''a'', NodeKey TASK ''b'', NodeKey TASK ''c'']),
                 NodeKey DATASET_TYPE ''ch'')]\<rparr>"

definition merged_abc :: node where
  "merged_abc = MergedNodeKey (fset_of_list [NodeKey TASK ''a'', NodeKey TASK ''b'', NodeKey TASK ''c''])"

definition merged_p :: node where
  "merged_p = MergedNodeKey (fset_of_list [NodeKey DATASET_TYPE ''p1'', NodeKey DATASET_TYPE ''p2''])"

section \<open>Properties of the status annotation\<close>

lemma set_status_Inr:
  "g key = Some st \<Longrightarrow> set_status g key v = Inr (g(key \<mapsto> st(''status'' \<mapsto> v)))"
  by (simp add: set_status_def)

lemma set_status_dom: "set_status g key v = Inr g' \<Longrightarrow> dom g' = dom g"
  by (cases "g key") (auto simp: set_status_def split: if_splits)

lemma set_status_other: "set_status g key v = Inr g' \<Longrightarrow> k \<noteq> key \<Longrightarrow> g' k = g k"
  by (auto simp: set_status_def split: option.splits)

lemma set_status_same: "set_status g key v = Inr g' \<Longrightarrow> status_of g' key = Some v"
  by (auto simp: set_status_def status_of_def split: option.splits)

lemma annotate_tasks_succeeds:
  "(\<forall>l \<in> fst ` set ts. NodeKey TASK l \<in> dom g) \<Longrightarrow> \<exists>g'. annotate_tasks ts g = Inr g'"
proof (induction ts arbitrary: g)
  case Nil
  then show ?case by simp
next
  case (Cons t ts)
  obtain l s where t: "t = (l, s)" by (cases t)
  from Cons.prems t obtain st where st: "g (NodeKey TASK l) = Some st" by auto
  let ?g1 = "g(NodeKey TASK l \<mapsto> st(''status'' \<mapsto> TaskStatus (task_status_info s)))"
  have "\<forall>l' \<in> fst ` set ts. NodeKey TASK l' \<in> dom ?g1" using Cons.prems by auto
  from Cons.IH[OF this] obtain g' where g': "annotate_tasks ts ?g1 = Inr g'" by blast
  have "annotate_tasks (t # ts) g = annotate_tasks ts ?g1"
    using t st by (simp add: set_status_Inr)
  with g' show ?case by (intro exI[of _ g']) (simp only:)
qed

lemma annotate_tasks_dom: "annotate_tasks ts g = Inr g' \<Longrightarrow> dom g' = dom g"
proof (induction ts arbitrary: g)
  case Nil
  then show ?case by simp
next
  case (Cons t ts)
  obtain l s where t: "t = (l, s)" by (cases t)
  from Cons.prems t obtain g1 where
    g1: "set_status g (NodeKey TASK l) (TaskStatus (task_status_info s)) = Inr g1"
    and rest: "annotate_tasks ts g1 = Inr g'"
    by (auto split: sum.splits)
  from Cons.IH[OF rest] set_status_dom[OF g1] show ?case by simp
qed

lemma annotate_tasks_frame:
  "annotate_tasks ts g = Inr g' \<Longrightarrow> \<forall>l \<in> fst ` set ts. k \<noteq> NodeKey TASK l \<Longrightarrow> g' k = g k"
proof (induction ts arbitrary: g)
  case Nil
  then show ?case by simp
next
  case (Cons t ts)
  obtain l s where t: "t = (l, s)" by (cases t)
  from Cons.prems(1) t obtain g1 where
    g1: "set_status g (NodeKey TASK l) (TaskStatus (task_status_info s)) = Inr g1"
    and rest: "annotate_tasks ts g1 = Inr g'"
    by (auto split: sum.splits)
  have "g' k = g1 k" using Cons.IH[OF rest] Cons.prems(2) by simp
  moreover have "g1 k = g k" using set_status_other[OF g1] Cons.prems(2) t by simp
  ultimately show ?case by simp
qed

lemma annotate_tasks_status:
  "annotate_tasks ts g = Inr g' \<Longrightarrow> distinct (map fst ts) \<Longrightarrow> (l, s) \<in> set ts
     \<Longrightarrow> status_of g' (NodeKey TASK l) = Some (TaskStatus (task_status_info s))"
proof (induction ts arbitrary: g)
  case Nil
  then show ?case by simp
next
  case (Cons t ts)
  obtain l0 s0 where t: "t = (l0, s0)" by (cases t)
  from Cons.prems(1) t obtain g1 where
    g1: "set_status g (NodeKey TASK l0) (TaskStatus (task_status_info s0)) = Inr g1"
    and rest: "annotate_tasks ts g1 = Inr g'"
    by (auto split: sum.splits)
  show ?case
  proof (cases "(l, s) \<in> set ts")
    case True
    then show ?thesis using Cons.IH[OF rest] Cons.prems(2) by simp
  next
    case False
    then have eq: "l = l0" "s = s0" using Cons.prems(3) t by auto
    have "l0 \<notin> fst ` set ts" using Cons.prems(2) t by simp
    then have "\<forall>l' \<in> fst ` set ts. NodeKey TASK l0 \<noteq> NodeKey TASK l'" by auto
    from annotate_tasks_frame[OF rest this]
    have "g' (NodeKey TASK l0) = g1 (NodeKey TASK l0)" .
    then have "status_of g' (NodeKey TASK l0) = status_of g1 (NodeKey TASK l0)"
      by (simp add: status_of_def)
    then show ?thesis using set_status_same[OF g1] eq by simp
  qed
qed

lemma datasets_loop_last:
  "ds \<noteq> [] \<Longrightarrow>
     datasets_loop ds b = Some (fst (last ds), dataset_type_status_info (snd (last ds)))"
proof (induction ds arbitrary: b)
  case Nil
  then show ?case by simp
next
  case (Cons d ds)
  obtain n s where d: "d = (n, s)" by (cases d)
  show ?case
  proof (cases "ds = []")
    case True
    then show ?thesis using d by simp
  next
    case False
    then show ?thesis using Cons.IH[OF False] d by simp
  qed
qed

text \<open>
  C10. With \<^verbatim>\<open>dataset_types=True\<close>, a summary holding at least one dataset type, and the
  graph holding the nodes that are written, the call returns normally; every task named in
  the summary has its status set from its own summary; of the dataset types only the one
  iterated last has its status set, and the node of every other dataset type named in the
  summary is left exactly as it was.
\<close>

theorem status_annotator_only_last_dataset_type:
  assumes tasks_present: "\<forall>l \<in> fst ` set (tasks qs). NodeKey TASK l \<in> dom g"
    and tasks_distinct: "distinct (map fst (tasks qs))"
    and some_dataset: "datasets qs \<noteq> []"
    and last_present: "NodeKey DATASET_TYPE (fst (last (datasets qs))) \<in> dom g"
  shows "\<exists>g'. QuantumProvenanceGraphStatusAnnotator_call qs g True = Inr g'
           \<and> (\<forall>(l, s) \<in> set (tasks qs).
                 status_of g' (NodeKey TASK l) = Some (TaskStatus (task_status_info s)))
           \<and> status_of g' (NodeKey DATASET_TYPE (fst (last (datasets qs))))
               = Some (DatasetTypeStatus (dataset_type_status_info (snd (last (datasets qs)))))
           \<and> (\<forall>n \<in> fst ` set (datasets qs). n \<noteq> fst (last (datasets qs))
                 \<longrightarrow> g' (NodeKey DATASET_TYPE n) = g (NodeKey DATASET_TYPE n))"
proof -
  let ?lk = "NodeKey DATASET_TYPE (fst (last (datasets qs)))"
  let ?lv = "DatasetTypeStatus (dataset_type_status_info (snd (last (datasets qs))))"
  from annotate_tasks_succeeds[OF tasks_present] obtain g1 where
    g1: "annotate_tasks (tasks qs) g = Inr g1" by blast
  have "?lk \<in> dom g1" using annotate_tasks_dom[OF g1] last_present by simp
  then obtain st where st: "g1 ?lk = Some st" by auto
  let ?g2 = "g1(?lk \<mapsto> st(''status'' \<mapsto> ?lv))"
  have set2: "set_status g1 ?lk ?lv = Inr ?g2" using st by (rule set_status_Inr)
  have call: "QuantumProvenanceGraphStatusAnnotator_call qs g True = Inr ?g2"
    using g1 set2 datasets_loop_last[OF some_dataset]
    by (simp add: QuantumProvenanceGraphStatusAnnotator_call_def)
  have task_part: "status_of ?g2 (NodeKey TASK l) = Some (TaskStatus (task_status_info s))"
    if "(l, s) \<in> set (tasks qs)" for l s
  proof -
    have "status_of g1 (NodeKey TASK l) = Some (TaskStatus (task_status_info s))"
      using annotate_tasks_status[OF g1 tasks_distinct that] .
    then show ?thesis by (simp add: status_of_def)
  qed
  have last_part: "status_of ?g2 ?lk = Some ?lv"
    by (simp add: status_of_def)
  have other_part: "?g2 (NodeKey DATASET_TYPE n) = g (NodeKey DATASET_TYPE n)"
    if "n \<noteq> fst (last (datasets qs))" for n
  proof -
    have "\<forall>l \<in> fst ` set (tasks qs). NodeKey DATASET_TYPE n \<noteq> NodeKey TASK l" by simp
    from annotate_tasks_frame[OF g1 this] show ?thesis using that by simp
  qed
  show ?thesis
    using call task_part last_part other_part by (intro exI[of _ ?g2]) auto
qed

theorem status_annotator_only_last_dataset_type_witness:
  "\<exists>g'. QuantumProvenanceGraphStatusAnnotator_call example_summary example_status_graph True = Inr g'
     \<and> status_of g' (NodeKey TASK ''isr'')
         = Some (TaskStatus \<lparr>expected = 4, succeded = 3, failed = 1, blocked = 0,
                             ready = None, running = None, wonky = Some 0\<rparr>)
     \<and> status_of g' (NodeKey DATASET_TYPE ''postISRCCD'')
         = Some (DatasetTypeStatus \<lparr>ds_expected = 4, ds_produced = 3\<rparr>)
     \<and> g' (NodeKey DATASET_TYPE ''raw'') = Some Map.empty"
  using status_annotator_only_last_dataset_type[of example_summary example_status_graph]
  by (auto simp: example_summary_def example_status_graph_def task_status_info_def
      dataset_type_status_info_def)

section \<open>Properties of the traversal\<close>

lemma QuantumIterData_init_index_keyword:
  "QuantumIterData_init ((''index'', v) # kwargs) = Inl TypeError"
  by (simp add: QuantumIterData_init_def QuantumIterData_slots_def)











lemma find_dependencies_missing_producer:
  "ref_id dataRef = None \<Longrightarrow> outs (datasetType_name dataRef, dataId dataRef) = None
     \<Longrightarrow> dataRef \<in> set refs \<Longrightarrow> find_dependencies False outs refs prereq = Inl KeyError"
proof (induction refs arbitrary: prereq)
  case Nil
  then show ?case by simp
next
  case (Cons r refs)
  show ?case
  proof (cases "r = dataRef")
    case True
    then show ?thesis using Cons.prems by simp
  next
    case False
    then have "dataRef \<in> set refs" using Cons.prems by simp
    from Cons.IH[OF Cons.prems(1,2) this] show ?thesis
      by (simp split: option.splits)
  qed
qed

lemma find_dependencies_single_tolerates:
  "\<exists>prereq'. find_dependencies True outs refs prereq = Inr prereq'"
  by (induction refs arbitrary: prereq) (auto split: option.splits)

text \<open>
  C3. With two quanta in the graph, the input \<open>z\<close> without producer ends the traversal
  with KeyError. With one task and one quantum the KeyError is suppressed, but the traversal
  does not succeed: it ends with the TypeError of the record's constructor and yields
  nothing, where an empty dependency set was to be yielded.
\<close>

theorem traverse_split_graph_raises:
  "traverse no_order two_quanta_graph = ([], Some KeyError)
   \<and> traverse no_order split_graph = ([], Some TypeError)"
proof
  show "traverse no_order two_quanta_graph = ([], Some KeyError)"
    by (simp add: traverse_def traverse_with_def no_order_def two_quanta_graph_def nodesMap_def
        task_B_def quantum_Z_def ref_z_def is_single_def)
  show "traverse no_order split_graph = ([], Some TypeError)"
    by (simp add: traverse_def traverse_with_def no_order_def split_graph_def nodesMap_def
        task_B_def quantum_Z_def ref_z_def is_single_def
        QuantumIterData_init_index_keyword)
qed

section \<open>Properties of the dataset type resolution\<close>

lemma from_edges_not_memoized:
  "(\<forall>p. previous = Some p \<longrightarrow> Some (dataset_type p) \<noteq> registry key_name) \<Longrightarrow>
   from_edges wres rres key_name ws rs registry previous
     = from_edges_body wres rres key_name ws rs (registry key_name) (registry key_name \<noteq> None)"
  by (cases previous) (simp_all add: from_edges_def Let_def)

lemma from_edges_memoized:
  "Some (dataset_type p) = registry key_name \<Longrightarrow>
   from_edges wres rres key_name ws rs registry (Some p) = Inr p"
  by (simp add: from_edges_def Let_def)

text \<open>A node that \<^verbatim>\<open>_from_edges\<close> returns is the previous one or comes out of the loops.\<close>

lemma from_edges_cases:
  assumes "from_edges wres rres key_name ws rs registry previous = Inr n"
  shows "previous = Some n
         \<or> from_edges_body wres rres key_name ws rs (registry key_name) (registry key_name \<noteq> None)
             = Inr n"
proof (cases "\<exists>p. previous = Some p \<and> Some (dataset_type p) = registry key_name")
  case True
  then obtain p where p: "previous = Some p" "Some (dataset_type p) = registry key_name" by blast
  with assms have "n = p" by (simp add: from_edges_memoized)
  with p show ?thesis by simp
next
  case False
  then have "\<forall>p. previous = Some p \<longrightarrow> Some (dataset_type p) \<noteq> registry key_name" by simp
  from from_edges_not_memoized[where registry = registry and key_name = key_name, OF this] assms
  show ?thesis by simp
qed







lemma write_edges_loop_flags:
  "write_edges_loop wres key_name ws dt iqc prereq producer = Inr (dt', iqc', prereq', producer')
     \<Longrightarrow> ws \<noteq> [] \<Longrightarrow> \<not> iqc' \<and> prereq' = Some False \<and> producer' \<noteq> None"
proof (cases ws)
  case Nil
  assume "ws \<noteq> []"
  with Nil show ?thesis by simp
next
  case (Cons w rest)
  assume run: "write_edges_loop wres key_name ws dt iqc prereq producer = Inr (dt', iqc', prereq', producer')"
  show ?thesis
  proof (cases rest)
    case Nil
    with Cons run show ?thesis by (auto split: option.splits sum.splits)
  next
    case (Cons w2 rest2)
    with \<open>ws = w # rest\<close> run show ?thesis by (auto split: option.splits sum.splits)
  qed
qed

lemma ReadEdge_resolve_produced:
  "ReadEdge_resolve_dataset_type definition_of r dt False (Some False) is_registered (Some producer) consumers
     = (case definition_of r dt of Inl e \<Rightarrow> Inl e | Inr d \<Rightarrow> Inr (d, False, False))"
  by (cases "definition_of r dt") (simp_all add: ReadEdge_resolve_dataset_type_def)

lemma read_edges_loop_flags:
  "read_edges_loop (ReadEdge_resolve_dataset_type definition_of) rs dt False (Some False)
       is_registered (Some producer) consumers = Inr (dt', iqc', prereq')
     \<Longrightarrow> \<not> iqc' \<and> prereq' = Some False"
proof (induction rs arbitrary: dt consumers)
  case Nil
  then show ?case by simp
next
  case (Cons r rs)
  show ?case
  proof (cases "definition_of r dt")
    case (Inl e)
    with Cons.prems show ?thesis by (simp add: ReadEdge_resolve_produced)
  next
    case (Inr d)
    with Cons.prems have
      "read_edges_loop (ReadEdge_resolve_dataset_type definition_of) rs (Some d) False
         (Some False) is_registered (Some producer) (consumers @ [r_task_label r])
       = Inr (dt', iqc', prereq')"
      by (simp add: ReadEdge_resolve_produced)
    from Cons.IH[OF this] show ?thesis .
  qed
qed

lemma from_edges_body_flags:
  assumes "from_edges_body wres (ReadEdge_resolve_dataset_type definition_of) key_name ws rs dt0 reg
             = Inr n"
    and "ws \<noteq> []"
  shows "\<not> is_prerequisite n \<and> \<not> is_initial_query_constraint n"
proof -
  define sorted_rs where "sorted_rs = sort_key (\<lambda>read_edge. component read_edge \<noteq> None) rs"
  from assms(1) obtain dt1 iqc1 prereq1 producer dt2 iqc2 prereq2 where
    w: "write_edges_loop wres key_name ws dt0 True None None = Inr (dt1, iqc1, prereq1, producer)"
    and r: "read_edges_loop (ReadEdge_resolve_dataset_type definition_of)
              sorted_rs dt1 iqc1 prereq1 reg producer [] = Inr (dt2, iqc2, prereq2)"
    and n: "is_initial_query_constraint n = iqc2" "prereq2 = Some (is_prerequisite n)"
    unfolding from_edges_body_def sorted_rs_def[symmetric]
    by (auto split: sum.splits option.splits)
  from write_edges_loop_flags[OF w assms(2)] obtain p where
    "\<not> iqc1" "prereq1 = Some False" "producer = Some p" by auto
  with r have "read_edges_loop (ReadEdge_resolve_dataset_type definition_of)
              sorted_rs dt1 False (Some False) reg (Some p) [] = Inr (dt2, iqc2, prereq2)"
    by simp
  from read_edges_loop_flags[OF this] n show ?thesis by simp
qed

lemma resolved_flags:
  "resolved wres (ReadEdge_resolve_dataset_type definition_of) key_name ws rs n \<Longrightarrow> ws \<noteq> []
     \<Longrightarrow> \<not> is_prerequisite n \<and> \<not> is_initial_query_constraint n"
proof (induction rule: resolved.induct)
  case (first registry n)
  from from_edges_cases[OF first.hyps] have
    "from_edges_body wres (ReadEdge_resolve_dataset_type definition_of) key_name ws rs
       (registry key_name) (registry key_name \<noteq> None) = Inr n"
    by simp
  from from_edges_body_flags[OF this first.prems] show ?case .
next
  case (again p registry n)
  from from_edges_cases[OF again.hyps(2)] show ?case
  proof
    assume "Some p = Some n"
    with again.IH[OF again.prems] show ?thesis by simp
  next
    assume "from_edges_body wres (ReadEdge_resolve_dataset_type definition_of) key_name ws rs
       (registry key_name) (registry key_name \<noteq> None) = Inr n"
    from from_edges_body_flags[OF this again.prems] show ?thesis .
  qed
qed

text \<open>
  C4. For a vertex with an incident write edge, and a previous node (if any) that an
  earlier resolution of the same edges returned, every node that the resolution returns
  has \<^verbatim>\<open>is_prerequisite = False\<close> and \<^verbatim>\<open>is_initial_query_constraint = False\<close>. Read
  from right to left: a returned node with \<^verbatim>\<open>is_prerequisite = True\<close> belongs to a vertex
  without write edge.
\<close>

theorem produced_is_never_prerequisite:
  assumes written: "write_edges \<noteq> []"
    and prev: "\<forall>p. previous = Some p \<longrightarrow>
                 resolved wres (ReadEdge_resolve_dataset_type definition_of) key_name
                   write_edges read_edges p"
    and run: "from_edges wres (ReadEdge_resolve_dataset_type definition_of) key_name
                write_edges read_edges registry previous = Inr n"
  shows "\<not> is_prerequisite n \<and> \<not> is_initial_query_constraint n"
proof -
  have "resolved wres (ReadEdge_resolve_dataset_type definition_of) key_name
          write_edges read_edges n"
  proof (cases previous)
    case None
    with run show ?thesis by (auto intro: resolved.first)
  next
    case (Some p)
    with prev have "resolved wres (ReadEdge_resolve_dataset_type definition_of) key_name
          write_edges read_edges p" by simp
    with run Some show ?thesis by (auto intro: resolved.again)
  qed
  from resolved_flags[OF this written] show ?thesis .
qed

lemma from_edges_calib_first:
  "from_edges (WriteEdge_resolve_dataset_type same_storage_class)
     (ReadEdge_resolve_dataset_type declared_by_read) ''calib''
     [write_calib_A] [read_calib_C] Map.empty None
     = Inr \<lparr>dataset_type = calib, is_initial_query_constraint = False, is_prerequisite = False\<rparr>"
  by (simp add: from_edges_def from_edges_body_def WriteEdge_resolve_dataset_type_def
      declared_by_read_def ReadEdge_resolve_dataset_type_def write_calib_A_def read_calib_C_def
      calib_def)

lemma from_edges_calib_again:
  "from_edges (WriteEdge_resolve_dataset_type same_storage_class)
     (ReadEdge_resolve_dataset_type declared_by_read) ''calib''
     [write_calib_A] [read_calib_C] calib_registry
     (Some \<lparr>dataset_type = calib, is_initial_query_constraint = False, is_prerequisite = False\<rparr>)
     = Inr \<lparr>dataset_type = calib, is_initial_query_constraint = False, is_prerequisite = False\<rparr>"
  by (simp add: from_edges_def calib_registry_def)

theorem produced_is_never_prerequisite_witness:
  "from_edges (WriteEdge_resolve_dataset_type same_storage_class)
     (ReadEdge_resolve_dataset_type declared_by_read) ''calib''
     [write_calib_A] [read_calib_C] calib_registry
     (Some \<lparr>dataset_type = calib, is_initial_query_constraint = False, is_prerequisite = False\<rparr>)
     = Inr \<lparr>dataset_type = calib, is_initial_query_constraint = False, is_prerequisite = False\<rparr>
   \<and> [write_calib_A] \<noteq> []
   \<and> \<not> is_prerequisite \<lparr>dataset_type = calib, is_initial_query_constraint = False, is_prerequisite = False\<rparr>
   \<and> \<not> is_initial_query_constraint
         \<lparr>dataset_type = calib, is_initial_query_constraint = False, is_prerequisite = False\<rparr>"
proof -
  have "resolved (WriteEdge_resolve_dataset_type same_storage_class)
      (ReadEdge_resolve_dataset_type declared_by_read) ''calib'' [write_calib_A] [read_calib_C]
      \<lparr>dataset_type = calib, is_initial_query_constraint = False, is_prerequisite = False\<rparr>"
    using from_edges_calib_first by (rule resolved.first)
  then have prev: "\<forall>p. Some \<lparr>dataset_type = calib, is_initial_query_constraint = False,
        is_prerequisite = False\<rparr> = Some p \<longrightarrow>
      resolved (WriteEdge_resolve_dataset_type same_storage_class)
        (ReadEdge_resolve_dataset_type declared_by_read) ''calib'' [write_calib_A] [read_calib_C] p"
    by simp
  have written: "[write_calib_A] \<noteq> []" by simp
  from produced_is_never_prerequisite[OF written prev from_edges_calib_again] from_edges_calib_again
  show ?thesis by simp
qed

section \<open>Properties of the merges\<close>

lemma fset_of_list_eq_iff:
  "fset_of_list xs = fset_of_list ys \<longleftrightarrow> set xs \<subseteq> set ys \<and> set ys \<subseteq> set xs"
  by (metis fset_of_list.rep_eq fset_inject set_eq_subset)

lemma fset_of_list_empty_iff: "fset_of_list xs = {||} \<longleftrightarrow> xs = []"
  by (cases xs) auto

lemma empty_fset_of_list_iff: "{||} = fset_of_list xs \<longleftrightarrow> xs = []"
  by (cases xs) auto

lemma fimage_fset_of_list: "f |`| fset_of_list xs = fset_of_list (map f xs)"
  by (induction xs) auto

lemmas fset_eval = fset_of_list_eq_iff fset_of_list_empty_iff empty_fset_of_list_iff
  fimage_fset_of_list fset_of_list.rep_eq fset_of_list_elem

lemmas graph_eval = predecessors_def successors_def in_edges_def out_edges_def node_keys_def
  add_node_def add_edge_def has_node_def remove_nodes_from_def reverse_def
  dict_update_def get_or_self_def merged_state_def state_get_def from_node_state_def Let_def

lemmas tree_eval = merge_graph_input_trees_def merge_graph_output_trees_def
  make_tree_merge_groups_def first_generation_def candidate_set_def apply_tree_merges_def
  edges_update_def

lemma has_node_eval: "has_node \<lparr>xnodes = ns, xedges = es\<rparr> n = (n \<in> set (map fst ns))"
  by (simp add: has_node_def node_keys_def)

lemma add_edge_eval:
  "add_edge \<lparr>xnodes = ns, xedges = es\<rparr> u v =
     \<lparr>xnodes = (if v \<in> set (map fst ns) \<or> v = u
                 then (if u \<in> set (map fst ns) then ns else ns @ [(u, [])])
                 else (if u \<in> set (map fst ns) then ns else ns @ [(u, [])]) @ [(v, [])]),
      xedges = (if (u, v) \<in> set es then es else es @ [(u, v)])\<rparr>"
  by (auto simp: add_edge_def has_node_def node_keys_def Let_def)

lemma add_node_eval:
  "add_node \<lparr>xnodes = ns, xedges = es\<rparr> n attr =
     \<lparr>xnodes = (if n \<in> set (map fst ns)
                 then map (\<lambda>(k, st). if k = n then (k, dict_update st attr) else (k, st)) ns
                 else ns @ [(n, attr)]),
      xedges = es\<rparr>"
  by (simp add: add_node_def has_node_def node_keys_def)

lemma remove_nodes_from_eval:
  "remove_nodes_from \<lparr>xnodes = ns, xedges = es\<rparr> gone =
     \<lparr>xnodes = filter (\<lambda>(k, st). \<not> gone k) ns,
      xedges = filter (\<lambda>(u, v). \<not> gone u \<and> \<not> gone v) es\<rparr>"
  by (simp add: remove_nodes_from_def)

lemma reverse_eval:
  "reverse \<lparr>xnodes = ns, xedges = es\<rparr> = \<lparr>xnodes = ns, xedges = map (\<lambda>(u, v). (v, u)) es\<rparr>"
  by (simp add: reverse_def)

lemma merge_intermediate_group_eval:
  "merge_intermediate_group order merge_key members (g, replacements) =
     (if length members < 2 then (g, replacements)
      else (remove_nodes_from
              (fold (\<lambda>child h. add_edge h (MergedNodeKey (fset_of_list members)) (get_or_self replacements child))
                 (iterate order (mk_children merge_key))
                 (fold (\<lambda>parent h. add_edge h (get_or_self replacements parent) (MergedNodeKey (fset_of_list members)))
                    (iterate order (mk_parents merge_key))
                    (add_node g (MergedNodeKey (fset_of_list members)) (merged_state merge_key))))
              (\<lambda>n. n \<in> set members),
            (\<lambda>n. if n \<in> set members then Some (MergedNodeKey (fset_of_list members)) else replacements n)))"
  by (simp add: merge_intermediate_group_def Let_def)

lemma from_node_state_eval:
  "from_node_state state ps cs options =
     (if truthy (opt_dimensions options) then
        (case map_of state ''dimensions'' of
           None \<Rightarrow> Inl KeyError
         | Some d \<Rightarrow>
             Inr (MergeKey (fset_of_list ps) d
                    (if opt_storage_classes options = Some True
                     then state_get state ''storage_class_name'' else None)
                    (if truthy (opt_task_classes options)
                     then state_get state ''task_class_name'' else None)
                    (fset_of_list cs)))
      else Inr (MergeKey (fset_of_list ps) None
                  (if opt_storage_classes options = Some True
                   then state_get state ''storage_class_name'' else None)
                  (if truthy (opt_task_classes options)
                   then state_get state ''task_class_name'' else None)
                  (fset_of_list cs)))"
  by (simp add: from_node_state_def Let_def)

lemmas graph_steps = predecessors_def successors_def in_edges_def out_edges_def node_keys_def
  has_node_eval add_edge_eval add_node_eval remove_nodes_from_eval reverse_eval
  dict_update_def get_or_self_def merged_state_def state_get_def from_node_state_eval

lemmas intermediates_steps = merge_graph_intermediates_def merge_intermediate_group_eval iterate_def

lemmas example_graphs = two_chains_def two_chains_merged_def two_chains_merged_twice_def
  shared_parents_def shared_parents_merged_def no_options_def
  unmerged_def merged_attrs_def merged_x_def merged_t_def merged_s_def merged_s0_def
  merged_abc_def merged_p_def

lemma remove_no_nodes: "remove_nodes_from g (\<lambda>n. False) = g"
  by (simp add: remove_nodes_from_def)

text \<open>
  C9. With depth 0 the two tree merges return the graph they were given: the same nodes in
  the same order with the same attributes, and the same edges, whatever the graph and the
  options.
\<close>

theorem tree_merges_depth_zero_unchanged:
  "merge_graph_input_trees xgraph options 0 = Inr xgraph
   \<and> merge_graph_output_trees xgraph options 0 = Inr xgraph"
  by (simp add: merge_graph_input_trees_def merge_graph_output_trees_def
      make_tree_merge_groups_def apply_tree_merges_def remove_no_nodes)

lemma two_chains_input_trees:
  "merge_graph_input_trees two_chains no_options 1 = Inr two_chains_merged"
  by (simp add: example_graphs tree_eval graph_eval fset_eval del: fset_of_list_simps(2))

lemma two_chains_merged_output_trees:
  "merge_graph_output_trees two_chains_merged no_options 1 = Inr two_chains_merged"
  by (simp add: example_graphs tree_eval graph_eval fset_eval del: fset_of_list_simps(2))

lemma two_chains_merged_intermediates:
  "merge_graph_intermediates two_chains_merged no_options = Inr two_chains_merged"
  by (simp add: example_graphs intermediates_steps graph_steps fset_eval del: fset_of_list_simps(2))

lemma two_chains_merged_input_trees:
  "merge_graph_input_trees two_chains_merged no_options 1 = Inr two_chains_merged_twice"
  by (simp add: example_graphs tree_eval graph_eval fset_eval del: fset_of_list_simps(2))

lemma two_chains_merged_twice_output_trees:
  "merge_graph_output_trees two_chains_merged_twice no_options 1 = Inr two_chains_merged_twice"
  by (simp add: example_graphs tree_eval graph_eval fset_eval del: fset_of_list_simps(2))

lemma two_chains_merged_twice_intermediates:
  "merge_graph_intermediates two_chains_merged_twice no_options = Inr two_chains_merged_twice"
  by (simp add: example_graphs intermediates_steps graph_steps fset_eval del: fset_of_list_simps(2))

theorem merge_engine_second_application_counterexample:
  "merge_engine two_chains no_options 1 = Inr two_chains_merged
   \<and> merge_engine two_chains_merged no_options 1 = Inr two_chains_merged_twice
   \<and> length (xnodes two_chains_merged) = 7
   \<and> length (xnodes two_chains_merged_twice) = 5
   \<and> merge_graph_input_trees two_chains no_options 1 = Inr two_chains_merged
   \<and> merge_graph_input_trees two_chains_merged no_options 1 = Inr two_chains_merged_twice"
proof -
  have first: "merge_engine two_chains no_options 1 = Inr two_chains_merged"
    unfolding merge_engine_def
    by (simp only: two_chains_input_trees two_chains_merged_output_trees
        two_chains_merged_intermediates sum.case)
  have second: "merge_engine two_chains_merged no_options 1 = Inr two_chains_merged_twice"
    unfolding merge_engine_def
    by (simp only: two_chains_merged_input_trees two_chains_merged_twice_output_trees
        two_chains_merged_twice_intermediates sum.case)
  have sizes: "length (xnodes two_chains_merged) = 7" "length (xnodes two_chains_merged_twice) = 5"
    by (simp_all add: two_chains_merged_def two_chains_merged_twice_def unmerged_def)
  from first second sizes two_chains_input_trees two_chains_merged_input_trees
  show ?thesis by (intro conjI)
qed

lemma shared_parents_intermediates:
  "merge_graph_intermediates shared_parents no_options = Inr shared_parents_merged"
  by (simp add: example_graphs intermediates_steps graph_steps fset_eval del: fset_of_list_simps(2))

lemma shared_parents_merged_edges:
  "set (xedges shared_parents_merged)
     = {(NodeKey TASK ''r'', merged_p), (merged_p, merged_abc), (merged_abc, NodeKey DATASET_TYPE ''ch'')}"
  by (simp add: shared_parents_merged_def merged_p_def merged_abc_def)

theorem shared_parents_merged_counterexample:
  "merge_graph_intermediates shared_parents no_options = Inr shared_parents_merged
   \<and> (NodeKey DATASET_TYPE ''p1'', merged_abc) \<notin> set (xedges shared_parents_merged)
   \<and> (NodeKey DATASET_TYPE ''p2'', merged_abc) \<notin> set (xedges shared_parents_merged)"
proof -
  have "NodeKey DATASET_TYPE ''p1'' \<noteq> merged_p" "NodeKey DATASET_TYPE ''p2'' \<noteq> merged_p"
    "NodeKey DATASET_TYPE ''p1'' \<noteq> merged_abc" "NodeKey DATASET_TYPE ''p2'' \<noteq> merged_abc"
    by (simp_all add: merged_p_def merged_abc_def)
  then show ?thesis
    using shared_parents_intermediates by (simp add: shared_parents_merged_edges)
qed

end
